theory Spec2Isabelle
  imports Main
begin

section \<open>JavaScript values\<close>

text \<open>
  The values the reactivity engine and the renderer compare and store. Numbers are the
  integers plus \<open>NaN\<close>; \<open>Obj n\<close> is the object with identity \<open>n\<close>, \<open>Proxy n\<close> the
  reactive proxy that \<open>reactive\<close> caches for that object (one per target, reactive,
  line 12), and \<open>Closure n\<close> the function object with identity \<open>n\<close>.
\<close>

datatype jsval =
    Undefined
  | Null
  | Bool bool
  | Num int
  | NaN
  | Str string
  | Obj nat
  | Proxy nat
  | Closure nat

text \<open>\<open>a === b\<close>: equal values, except that \<open>NaN\<close> is not equal to itself.\<close>

definition strict_eq :: "jsval \<Rightarrow> jsval \<Rightarrow> bool" where
  "strict_eq a b = (a = b \<and> a \<noteq> NaN)"

text \<open>\<open>a == b\<close> is only ever applied to a value and itself (utils, line 6), where it
  agrees with \<open>===\<close>.\<close>

text \<open>Truthiness, as \<open>if (v)\<close> and \<open>a && b\<close> test it.\<close>

fun truthy :: "jsval \<Rightarrow> bool" where
  "truthy Undefined = False"
| "truthy Null = False"
| "truthy (Bool b) = b"
| "truthy (Num n) = (n \<noteq> 0)"
| "truthy NaN = False"
| "truthy (Str s) = (s \<noteq> [])"
| "truthy (Obj _) = True"
| "truthy (Proxy _) = True"
| "truthy (Closure _) = True"

text \<open>\<open>arr[i]\<close> reads \<open>undefined\<close> (here \<open>None\<close>) outside the array, also at \<open>-1\<close>.\<close>

definition js_index :: "'a list \<Rightarrow> int \<Rightarrow> 'a option" where
  "js_index xs i = (if 0 \<le> i \<and> i < int (length xs) then Some (xs ! nat i) else None)"

datatype error = TypeError | RangeError

section \<open>getSequence (renderer)\<close>

text \<open>The renderer's file holds the vnode module and, from line 203, the render
  module; line numbers for both count from the top of that file.\<close>

text \<open>\<open>~~(n / 2)\<close>: division by two, truncated towards zero.\<close>

definition trunc_half :: "int \<Rightarrow> int" where
  "trunc_half n = (if 0 \<le> n then n div 2 else - ((- n) div 2))"

text \<open>
  The binary search of lines 800-813. A comparison with \<open>undefined\<close> is false, so an
  out-of-range \<open>result[mid]\<close> takes the last branch (\<open>l = mid; break\<close>).
\<close>

function bsearch :: "int list \<Rightarrow> int \<Rightarrow> int \<Rightarrow> int \<Rightarrow> int" where
  "bsearch result x l r =
     (if l \<le> r then
        (let mid = trunc_half (l + r) in
         case js_index result mid of
           None \<Rightarrow> mid
         | Some v \<Rightarrow>
             if x > v then bsearch result x (mid + 1) r
             else if x < v then bsearch result x l (mid - 1)
             else mid)
      else l)"
  by pat_completeness auto
termination
  by (relation "measure (\<lambda>(result, x, l, r). nat (r - l + 1))")
     (auto simp: trunc_half_def)

declare bsearch.simps [simp del]

text \<open>
  \<open>result[l] = x\<close>. The search is only called with \<open>0 \<le> l\<close> and
  \<open>r = result.length - 1\<close> and then returns an index between \<open>0\<close> and
  \<open>result.length\<close> (lemma \<open>bsearch_bounds\<close>), so the store either overwrites a slot
  or appends one.
\<close>

definition js_store :: "int list \<Rightarrow> int \<Rightarrow> int \<Rightarrow> int list" where
  "js_store xs l x = (if l < int (length xs) then xs[nat l := x] else xs @ [x])"

text \<open>One iteration of the first loop (lines 789-817) on \<open>nums[i] = x\<close>; the pair is
  \<open>(result, position)\<close>.\<close>

fun seq_step :: "int list \<times> int list \<Rightarrow> int \<Rightarrow> int list \<times> int list" where
  "seq_step (result, position) x =
     (if x = - 1 then (result, position)
      else if (case js_index result (int (length result) - 1) of
                 None \<Rightarrow> False | Some v \<Rightarrow> x > v)
      then (result @ [x], position @ [int (length result)])
      else (let l = bsearch result x 0 (int (length result) - 1)
            in (js_store result l x, position @ [l])))"

text \<open>The backward loop of lines 821-825; the \<open>nat\<close> argument is \<open>i + 1\<close>.\<close>

fun backtrack :: "int list \<Rightarrow> nat \<Rightarrow> int \<Rightarrow> int list \<Rightarrow> int list" where
  "backtrack position 0 cur result = result"
| "backtrack position (Suc i) cur result =
     (if 0 \<le> cur then
        (if position ! i = cur
         then backtrack position i (cur - 1) (result[nat cur := int i])
         else backtrack position i cur result)
      else result)"

definition getSequence :: "int list \<Rightarrow> int list" where
  "getSequence nums =
     (let (result, position) = foldl seq_step ([], []) nums
      in backtrack position (length position) (int (length result) - 1) result)"

section \<open>The dependency graph (effect)\<close>

text \<open>
  The effect module is the second half of watchEffect.ts; line numbers are that file's.
  A property key is an array index or a name. Objects and subscribers are known by
  their identity. \<open>targetMap\<close> maps a target to its map from keys to sets of
  subscribers; a JavaScript \<open>Set\<close> keeps its members in insertion order, so it is a
  list without duplicates. The entries of \<open>effectFn.deps\<close> are references to such sets:
  a set is created once for its target and key and never replaced (effect, lines
  144-148), so the pair of target and key stands for the reference. \<open>user\<close> is the
  application's own state, which the functions given to \<open>effect\<close> read and write.
\<close>

datatype pkey = Idx nat | Name string

type_synonym target = nat
type_synonym effect_id = nat

record 'u world =
  targetMap :: "target \<Rightarrow> (pkey \<Rightarrow> effect_id list option) option"
  activeEffect :: "effect_id option"
  effectStack :: "effect_id list"
  effect_deps :: "effect_id \<Rightarrow> (target \<times> pkey) list"
  user :: 'u

definition set_add :: "'a \<Rightarrow> 'a list \<Rightarrow> 'a list" where
  "set_add x xs = (if x \<in> set xs then xs else xs @ [x])"

definition set_delete :: "'a \<Rightarrow> 'a list \<Rightarrow> 'a list" where
  "set_delete x xs = removeAll x xs"

text \<open>The subscribers of a target and key (the empty list when there is no set).\<close>

definition subscribers :: "'u world \<Rightarrow> target \<Rightarrow> pkey \<Rightarrow> effect_id list" where
  "subscribers w t k =
     (case targetMap w t of
        None \<Rightarrow> []
      | Some depsMap \<Rightarrow> (case depsMap k of None \<Rightarrow> [] | Some deps \<Rightarrow> deps))"

text \<open>\<open>deps.delete(effectFn)\<close> on the set that a reference in \<open>effectFn.deps\<close> names.\<close>

definition delete_from :: "effect_id \<Rightarrow> 'u world \<Rightarrow> target \<times> pkey \<Rightarrow> 'u world" where
  "delete_from e w r =
     (case targetMap w (fst r) of
        None \<Rightarrow> w
      | Some depsMap \<Rightarrow>
          (case depsMap (snd r) of
             None \<Rightarrow> w
           | Some deps \<Rightarrow>
               w\<lparr>targetMap := (targetMap w)(fst r \<mapsto> depsMap(snd r \<mapsto> set_delete e deps))\<rparr>))"

text \<open>\<open>clean\<close> (lines 128-131): delete the subscriber from every set in its \<open>deps\<close>.\<close>

definition clean :: "effect_id \<Rightarrow> 'u world \<Rightarrow> 'u world" where
  "clean e w = foldl (delete_from e) w (effect_deps w e)"

text \<open>\<open>track\<close> (lines 138-151).\<close>

definition track :: "target \<Rightarrow> pkey \<Rightarrow> 'u world \<Rightarrow> 'u world" where
  "track t k w =
     (case activeEffect w of
        None \<Rightarrow> w
      | Some e \<Rightarrow>
          (let depsMap = (case targetMap w t of None \<Rightarrow> Map.empty | Some m \<Rightarrow> m);
               deps = (case depsMap k of None \<Rightarrow> [] | Some d \<Rightarrow> d)
           in w\<lparr>targetMap := (targetMap w)(t \<mapsto> depsMap(k \<mapsto> set_add e deps))\<rparr>))"

text \<open>
  The wrapper \<open>effectFn\<close> that \<open>effect\<close> builds around \<open>fn\<close> (lines 95-110):
  clean, make the subscriber the active one, push it, run \<open>fn\<close>, pop, and make the new
  top of the stack (or \<open>undefined\<close>) the active subscriber.
\<close>

definition effectFn ::
  "effect_id \<Rightarrow> ('u world \<Rightarrow> 'a \<times> 'u world) \<Rightarrow> 'u world \<Rightarrow> 'a \<times> 'u world" where
  "effectFn e fn w =
     (let w1 = clean e w;
          w2 = w1\<lparr>activeEffect := Some e\<rparr>;
          w3 = w2\<lparr>effectStack := effectStack w2 @ [e]\<rparr>;
          (res, w4) = fn w3;
          w5 = w4\<lparr>effectStack := butlast (effectStack w4)\<rparr>;
          w6 = w5\<lparr>activeEffect :=
                  (if effectStack w5 = [] then None else Some (last (effectStack w5)))\<rparr>
      in (res, w6))"

text \<open>
  \<open>effect(fn, options)\<close> (lines 94-122) for a new subscriber \<open>e\<close>: its \<open>deps\<close>
  start empty, and it runs at once unless \<open>lazy\<close>.
\<close>

definition effect ::
  "effect_id \<Rightarrow> ('u world \<Rightarrow> 'a \<times> 'u world) \<Rightarrow> bool \<Rightarrow> 'u world \<Rightarrow> 'u world" where
  "effect e fn lazy w =
     (let w0 = w\<lparr>effect_deps := (effect_deps w)(e := [])\<rparr>
      in if \<not> lazy then snd (effectFn e fn w0) else w0)"

definition empty_world :: "'u \<Rightarrow> 'u world" where
  "empty_world u =
     \<lparr>targetMap = Map.empty, activeEffect = None, effectStack = [],
      effect_deps = (\<lambda>_. []), user = u\<rparr>"

text \<open>
  \<open>trigger(target, key)\<close> runs whatever subscribers the set holds; what they do is the
  application's code. The functions below that call \<open>trigger\<close> take it as an argument:
  a function of the target, the key and the state the subscribers can reach.
\<close>

section \<open>hasChanged, reactive proxies and boxed references\<close>

text \<open>\<open>hasChanged\<close> (utils, lines 5-7):
  \<open>oldVal !== newVal && oldVal === oldVal && newVal == newVal\<close>.\<close>

definition hasChanged :: "jsval \<Rightarrow> jsval \<Rightarrow> bool" where
  "hasChanged oldVal newVal =
     (\<not> strict_eq oldVal newVal \<and> strict_eq oldVal oldVal \<and> strict_eq newVal newVal)"

text \<open>
  The operations of the JavaScript object model that the \<open>set\<close> trap uses on its
  target: \<open>Reflect.get\<close>, \<open>Reflect.set\<close> (which may throw, and returns whether the
  write was done together with the target as written) and \<open>Array.isArray\<close>. They belong
  to the host, so the trap takes them as a record.
\<close>

record 'o reflect =
  Reflect_get :: "'o \<Rightarrow> pkey \<Rightarrow> jsval"
  Reflect_set :: "'o \<Rightarrow> pkey \<Rightarrow> jsval \<Rightarrow> error + bool \<times> 'o"
  isArray :: "'o \<Rightarrow> bool"

text \<open>
  The \<open>set\<close> trap of \<open>reactive\<close> (reactive, lines 23-37) on a target in state \<open>obj\<close>;
  \<open>s\<close> is the rest of the state that subscribers can reach, and \<open>trigger key\<close>
  stands for \<open>trigger(target, key)\<close>. \<open>target.length\<close> is a property read.
\<close>

definition proxy_set ::
  "'o reflect \<Rightarrow> (pkey \<Rightarrow> 'o \<times> 's \<Rightarrow> 'o \<times> 's) \<Rightarrow> pkey \<Rightarrow> jsval \<Rightarrow> 'o \<times> 's
     \<Rightarrow> error + bool \<times> 'o \<times> 's" where
  "proxy_set R trigger key newVal st =
     (let oldLength = Reflect_get R (fst st) (Name ''length'');
          oldVal = Reflect_get R (fst st) key
      in case Reflect_set R (fst st) key newVal of
           Inl err \<Rightarrow> Inl err
         | Inr (res, obj1) \<Rightarrow>
             if hasChanged oldVal newVal then
               (let st1 = trigger key (obj1, snd st) in
                if isArray R (fst st1)
                   \<and> \<not> strict_eq oldLength (Reflect_get R (fst st1) (Name ''length''))
                then Inr (res, trigger (Name ''length'') st1)
                else Inr (res, st1))
             else Inr (res, obj1, snd st))"

text \<open>
  Plain data objects and arrays with own data properties only, for the examples:
  an ordinary write; on an array, a write at an index at or past \<open>length\<close> raises
  \<open>length\<close> (an array index is below \<open>2^32 - 1\<close>; a larger number names an
  ordinary property), and a write of a valid length to \<open>length\<close> drops the elements
  from there on. The examples write numbers only; the conversion of other values to a length
  is left out, and everything that is not a number in range is \<open>RangeError\<close> here.
\<close>

record jsobj =
  is_array :: bool
  own :: "pkey \<Rightarrow> jsval option"

definition own_get :: "jsobj \<Rightarrow> pkey \<Rightarrow> jsval" where
  "own_get obj k = (case own obj k of None \<Rightarrow> Undefined | Some v \<Rightarrow> v)"

definition array_length :: "jsobj \<Rightarrow> nat" where
  "array_length obj = (case own obj (Name ''length'') of Some (Num n) \<Rightarrow> nat n | _ \<Rightarrow> 0)"

definition own_set :: "jsobj \<Rightarrow> pkey \<Rightarrow> jsval \<Rightarrow> error + bool \<times> jsobj" where
  "own_set obj k v =
     (if is_array obj then
        (case k of
           Idx i \<Rightarrow>
             if i < 4294967295 then
               Inr (True, obj\<lparr>own := (own obj)(Idx i \<mapsto> v,
                      Name ''length'' \<mapsto> Num (int (max (array_length obj) (i + 1))))\<rparr>)
             else Inr (True, obj\<lparr>own := (own obj)(k \<mapsto> v)\<rparr>)
         | Name n \<Rightarrow>
             if n = ''length'' then
               (case v of
                  Num len \<Rightarrow>
                    if 0 \<le> len \<and> len < 4294967296 then
                      Inr (True, obj\<lparr>own := (\<lambda>k'. case k' of
                              Idx i \<Rightarrow> (if int i < len then own obj (Idx i) else None)
                            | Name n' \<Rightarrow> (if n' = ''length'' then Some (Num len)
                                            else own obj (Name n')))\<rparr>)
                    else Inl RangeError
                | _ \<Rightarrow> Inl RangeError)
             else Inr (True, obj\<lparr>own := (own obj)(k \<mapsto> v)\<rparr>))
      else Inr (True, obj\<lparr>own := (own obj)(k \<mapsto> v)\<rparr>))"

definition own_reflect :: "jsobj reflect" where
  "own_reflect = \<lparr>Reflect_get = own_get, Reflect_set = own_set, isArray = is_array\<rparr>"

definition js_array :: "jsval list \<Rightarrow> jsobj" where
  "js_array vs =
     \<lparr>is_array = True,
      own = (\<lambda>k. case k of
               Idx i \<Rightarrow> (if i < length vs then Some (vs ! i) else None)
             | Name n \<Rightarrow> (if n = ''length'' then Some (Num (int (length vs))) else None))\<rparr>"

text \<open>
  \<open>conver\<close> (ref, lines 91-93): an object becomes its reactive proxy, \<open>reactive\<close>
  returns a proxy as it is, and every other value stays.
\<close>

fun conver :: "jsval \<Rightarrow> jsval" where
  "conver (Obj n) = Proxy n"
| "conver v = v"

text \<open>\<open>RefImpl\<close>: the field \<open>__value\<close>, and the setter of \<open>value\<close> (ref, lines 75-83).\<close>

record refimpl =
  ref_value :: jsval

definition ref_set ::
  "(pkey \<Rightarrow> refimpl \<times> 's \<Rightarrow> refimpl \<times> 's) \<Rightarrow> jsval \<Rightarrow> refimpl \<times> 's \<Rightarrow> refimpl \<times> 's" where
  "ref_set trigger newVal st =
     (if hasChanged (ref_value (fst st)) newVal
      then trigger (Name ''value'') ((fst st)\<lparr>ref_value := conver newVal\<rparr>, snd st)
      else st)"


section \<open>Derived values (computed)\<close>


text \<open>
  \<open>ComputedImpl\<close>: the fields \<open>__value\<close> and \<open>dirty\<close>, the subscriber in
  \<open>effect\<close>, and the identity of the object itself, which is the target of its own
  \<open>track\<close> and \<open>trigger\<close>. \<open>getter_runs\<close> is not a field of the class: it counts
  the calls of the getter. The getter is the application's; it works on the world and
  does not reach the derived value it computes.
\<close>

record computed =
  c_value :: jsval
  dirty :: bool
  c_effect :: effect_id
  c_self :: target
  getter_runs :: nat

text \<open>The constructor (lines 62-84): the subscriber is lazy, so nothing runs.\<close>

definition computed_new ::
  "effect_id \<Rightarrow> target \<Rightarrow> ('u world \<Rightarrow> jsval \<times> 'u world) \<Rightarrow> 'u world
     \<Rightarrow> computed \<times> 'u world" where
  "computed_new e self getter w =
     (\<lparr>c_value = Undefined, dirty = True, c_effect = e, c_self = self, getter_runs = 0\<rparr>,
      effect e getter True w)"

text \<open>A call of \<open>this.effect()\<close>: the getter runs inside the wrapper.\<close>

definition computed_effect ::
  "('u world \<Rightarrow> jsval \<times> 'u world) \<Rightarrow> computed \<times> 'u world
     \<Rightarrow> jsval \<times> computed \<times> 'u world" where
  "computed_effect getter st =
     (let (v, w1) = effectFn (c_effect (fst st)) getter (snd st)
      in (v, (fst st)\<lparr>getter_runs := Suc (getter_runs (fst st))\<rparr>, w1))"

text \<open>The getter of \<open>value\<close> (lines 90-102).\<close>

definition computed_get ::
  "('u world \<Rightarrow> jsval \<times> 'u world) \<Rightarrow> computed \<times> 'u world
     \<Rightarrow> jsval \<times> computed \<times> 'u world" where
  "computed_get getter st =
     (if dirty (fst st) then
        (let (v, c1, w1) = computed_effect getter st;
             c2 = c1\<lparr>c_value := v\<rparr>;
             c3 = c2\<lparr>dirty := False\<rparr>;
             w2 = track (c_self c3) (Name ''value'') w1
         in (c_value c3, c3, w2))
      else (c_value (fst st), st))"



text \<open>
  Subscribers of a derived value that change no source of it: what they do is made of
  steps on the world, which may depend on what they have read, and of reads of
  \<open>value\<close>. \<open>cnt\<close> is a count that the getter may keep in the application's state;
  the steps on the world leave it alone (for a getter that keeps no count, \<open>cnt\<close> is
  constant and the steps are arbitrary).
\<close>

inductive reads_only ::
  "('u \<Rightarrow> nat) \<Rightarrow> ('u world \<Rightarrow> jsval \<times> 'u world)
     \<Rightarrow> (computed \<times> 'u world \<Rightarrow> computed \<times> 'u world) \<Rightarrow> bool"
  for cnt :: "'u \<Rightarrow> nat" and g :: "'u world \<Rightarrow> jsval \<times> 'u world" where
  world_step:
    "(\<And>st. cnt (user (f st)) = cnt (user (snd st))) \<Longrightarrow> reads_only cnt g (\<lambda>st. (fst st, f st))"
| read_value: "reads_only cnt g (\<lambda>st. snd (computed_get g st))"
| sequence:
    "reads_only cnt g a \<Longrightarrow> reads_only cnt g b \<Longrightarrow> reads_only cnt g (\<lambda>st. b (a st))"
| branch:
    "reads_only cnt g a \<Longrightarrow> reads_only cnt g b
       \<Longrightarrow> reads_only cnt g (\<lambda>st. if p st then a st else b st)"



section \<open>Watchers (watch, watchEffect)\<close>

text \<open>
  The variables of one \<open>watch\<close> or \<open>watchEffect\<close> call: \<open>oldVal\<close>, \<open>newVal\<close>,
  \<open>cleanUp\<close> (a function, known by its identity, or \<open>undefined\<close>) and the subscriber.
  \<open>calls\<close> is the record of the calls made to the application's functions, in order.
\<close>

datatype watch_event =
    CleanupCalled nat
  | CallbackCalled jsval jsval
  | EffectCallbackCalled

record watcher =
  w_oldVal :: jsval
  w_newVal :: jsval
  w_cleanUp :: "nat option"
  w_effect :: effect_id
  calls :: "watch_event list"

text \<open>
  The application's side of a watcher: the getter that the source was normalised to
  (a function source is its own getter) and the identity of that function object, the
  callback, which returns the functions it passed to \<open>onInvalidate\<close> in the order of
  the calls, and what each cleanup function does.
\<close>

record 'u watch_app =
  app_getter_id :: nat
  app_getter :: "'u world \<Rightarrow> jsval \<times> 'u world"
  app_cb :: "jsval \<Rightarrow> jsval \<Rightarrow> 'u world \<Rightarrow> nat list \<times> 'u world"
  app_cleanup :: "nat \<Rightarrow> 'u world \<Rightarrow> 'u world"

text \<open>\<open>onInvalidate(fn)\<close> assigns \<open>cleanUp = fn\<close>; the last call stays.\<close>

definition onInvalidate :: "nat option \<Rightarrow> nat list \<Rightarrow> nat option" where
  "onInvalidate current fns = foldl (\<lambda>_ fn. Some fn) current fns"

text \<open>
  \<open>job\<close> (watch.ts, lines 80-89; the same text in the other \<open>watch\<close>, lines 70-76).
  \<open>body\<close> is the function given to \<open>effect\<close>.
\<close>

definition job ::
  "'u watch_app \<Rightarrow> ('u world \<Rightarrow> jsval \<times> 'u world) \<Rightarrow> watcher \<times> 'u world
     \<Rightarrow> watcher \<times> 'u world" where
  "job A body st =
     (let (nv, w1) = effectFn (w_effect (fst st)) body (snd st);
          ws1 = (fst st)\<lparr>w_newVal := nv\<rparr>;
          (ws2, w2) = (case w_cleanUp ws1 of
                         None \<Rightarrow> (ws1, w1)
                       | Some fn \<Rightarrow>
                           (ws1\<lparr>calls := calls ws1 @ [CleanupCalled fn]\<rparr>, app_cleanup A fn w1));
          ws3 = ws2\<lparr>calls := calls ws2 @ [CallbackCalled (w_oldVal ws2) (w_newVal ws2)]\<rparr>;
          (fns, w3) = app_cb A (w_oldVal ws3) (w_newVal ws3) w2;
          ws4 = ws3\<lparr>w_cleanUp := onInvalidate (w_cleanUp ws3) fns\<rparr>;
          ws5 = ws4\<lparr>w_oldVal := w_newVal ws4\<rparr>
      in (ws5, w3))"

definition new_watcher :: "effect_id \<Rightarrow> watcher" where
  "new_watcher e =
     \<lparr>w_oldVal = Undefined, w_newVal = Undefined, w_cleanUp = None, w_effect = e, calls = []\<rparr>"

text \<open>
  \<open>watch\<close> of src/reactivity/watch.ts. The function given to \<open>effect\<close> is
  \<open>() => getter\<close> (line 53): it returns the getter, a function object, and does not
  call it.
\<close>

definition watch_body :: "'u watch_app \<Rightarrow> 'u world \<Rightarrow> jsval \<times> 'u world" where
  "watch_body A w = (Closure (app_getter_id A), w)"

definition watch :: "'u watch_app \<Rightarrow> bool \<Rightarrow> effect_id \<Rightarrow> 'u world \<Rightarrow> watcher \<times> 'u world" where
  "watch A immediate e w =
     (let w0 = effect e (watch_body A) True w;
          ws = new_watcher e
      in if immediate then job A (watch_body A) (ws, w0)
         else (let (v, w1) = effectFn e (watch_body A) w0 in (ws\<lparr>w_oldVal := v\<rparr>, w1)))"

text \<open>
  The other \<open>watch\<close> of the repository (the file that opens with the comment on the
  repaired implementation). The function given to \<open>effect\<close> is \<open>() => getter()\<close>
  (line 48), and the old value is taken before \<open>immediate\<close> is looked at (lines 78-84).
\<close>

definition watch_repaired_body :: "'u watch_app \<Rightarrow> 'u world \<Rightarrow> jsval \<times> 'u world" where
  "watch_repaired_body A w = app_getter A w"

definition watch_repaired ::
  "'u watch_app \<Rightarrow> bool \<Rightarrow> effect_id \<Rightarrow> 'u world \<Rightarrow> watcher \<times> 'u world" where
  "watch_repaired A immediate e w =
     (let w0 = effect e (watch_repaired_body A) True w;
          ws = new_watcher e;
          (v, w1) = effectFn e (watch_repaired_body A) w0;
          st = (ws\<lparr>w_oldVal := v\<rparr>, w1)
      in if immediate then job A (watch_repaired_body A) st else st)"

text \<open>
  \<open>watchEffect\<close> (watchEffect.ts, lines 10-50). Its callback takes \<open>onInvalidate\<close>
  only; the first run goes through the subscriber, every later one through \<open>job\<close>
  (lines 41-46), which calls the callback directly.
\<close>

definition watchEffect_cb ::
  "('u world \<Rightarrow> nat list \<times> 'u world) \<Rightarrow> watcher \<times> 'u world \<Rightarrow> watcher \<times> 'u world" where
  "watchEffect_cb ecb st =
     (let ws1 = (fst st)\<lparr>calls := calls (fst st) @ [EffectCallbackCalled]\<rparr>;
          (fns, w1) = ecb (snd st)
      in (ws1\<lparr>w_cleanUp := onInvalidate (w_cleanUp ws1) fns\<rparr>, w1))"

definition watchEffect_job ::
  "('u world \<Rightarrow> nat list \<times> 'u world) \<Rightarrow> (nat \<Rightarrow> 'u world \<Rightarrow> 'u world)
     \<Rightarrow> watcher \<times> 'u world \<Rightarrow> watcher \<times> 'u world" where
  "watchEffect_job ecb run st =
     (let st1 = (case w_cleanUp (fst st) of
                   None \<Rightarrow> st
                 | Some fn \<Rightarrow>
                     ((fst st)\<lparr>calls := calls (fst st) @ [CleanupCalled fn]\<rparr>, run fn (snd st)))
      in watchEffect_cb ecb st1)"

definition watchEffect ::
  "('u world \<Rightarrow> nat list \<times> 'u world) \<Rightarrow> effect_id \<Rightarrow> 'u world \<Rightarrow> watcher \<times> 'u world" where
  "watchEffect ecb e w =
     (let ws = new_watcher e;
          body = (\<lambda>w'. watchEffect_cb ecb (ws, w'));
          w0 = effect e body True w
      in effectFn e body w0)"


text \<open>
  Applications for the examples. The first watches \<open>() => state.count\<close>, where
  \<open>count\<close> is the application's state and a property of the target \<open>1\<close>, with a
  callback that registers nothing. The second watches a getter that reads
  \<open>state.count\<close> too, with a callback that passes the function \<open>5\<close> to
  \<open>onInvalidate\<close> on its first call only; its state counts the calls. The third is
  a callback for \<open>watchEffect\<close> that reads \<open>state.count\<close> and registers \<open>5\<close> on
  its first call only.
\<close>

definition counter_app :: "int watch_app" where
  "counter_app =
     \<lparr>app_getter_id = 7,
      app_getter = (\<lambda>w. (Num (user w), track 1 (Name ''count'') w)),
      app_cb = (\<lambda>old new w. ([], w)),
      app_cleanup = (\<lambda>fn w. w)\<rparr>"

definition registering_app :: "nat watch_app" where
  "registering_app =
     \<lparr>app_getter_id = 7,
      app_getter = (\<lambda>w. (Num 0, track 1 (Name ''count'') w)),
      app_cb = (\<lambda>old new w. (if user w = 0 then [5] else [], w\<lparr>user := Suc (user w)\<rparr>)),
      app_cleanup = (\<lambda>fn w. w)\<rparr>"

definition registering_cb :: "nat world \<Rightarrow> nat list \<times> nat world" where
  "registering_cb w =
     (if user w = 0 then [5] else [], (track 1 (Name ''count'') w)\<lparr>user := Suc (user w)\<rparr>)"


section \<open>The job scheduler\<close>

text \<open>
  The module's variables: \<open>jobQueue\<close>, a \<open>Set\<close> in insertion order; \<open>isFlushing\<close>;
  whether \<open>currentFlushPromise\<close> holds a promise; and the microtasks that the promise
  chain of \<open>flushJob\<close> has queued. \<open>ran\<close> is the record of the callbacks called, in
  order, \<open>requested\<close> the record of the callbacks passed to \<open>queueJob\<close>, and \<open>app\<close>
  the application's state. A callback is known by its identity;
  what it does is the application's: \<open>body fn\<close> takes the application's state and
  returns the callbacks that \<open>fn\<close> passes to \<open>queueJob\<close>, in the order of the calls,
  the application's state as \<open>fn\<close> leaves it, and whether \<open>fn\<close> then throws instead
  of returning.
\<close>

datatype microtask = RunQueue | Finally

datatype 's outcome = Returned (state_of: 's) | Threw (state_of: 's)

record 'u sched =
  jobQueue :: "nat list"
  isFlushing :: bool
  currentFlushPromise :: bool
  microtasks :: "microtask list"
  ran :: "nat list"
  requested :: "nat list"
  app :: 'u

definition new_sched :: "'u \<Rightarrow> 'u sched" where
  "new_sched u =
     \<lparr>jobQueue = [], isFlushing = False, currentFlushPromise = False, microtasks = [],
      ran = [], requested = [], app = u\<rparr>"

text \<open>\<open>flushJob\<close> (lines 51-70) up to the promise chain: the \<open>then\<close> callback of an
  already resolved promise is queued as a microtask at once.\<close>

definition flushJob :: "'u sched \<Rightarrow> 'u sched" where
  "flushJob s =
     (if isFlushing s then s
      else s\<lparr>isFlushing := True, currentFlushPromise := True,
             microtasks := microtasks s @ [RunQueue]\<rparr>)"

text \<open>\<open>queueJob\<close> (lines 41-46).\<close>

definition queueJob :: "nat \<Rightarrow> 'u sched \<Rightarrow> 'u sched" where
  "queueJob fn s =
     flushJob (s\<lparr>jobQueue := set_add fn (jobQueue s), requested := requested s @ [fn]\<rparr>)"

text \<open>The call \<open>fn()\<close> of a queued callback, which returns or throws.\<close>

definition call_job ::
  "(nat \<Rightarrow> 'u \<Rightarrow> nat list \<times> 'u \<times> bool) \<Rightarrow> nat \<Rightarrow> 'u sched \<Rightarrow> 'u sched outcome" where
  "call_job body fn s =
     (let (fns, u, throws) = body fn (app s);
          s1 = foldl (\<lambda>s' q. queueJob q s') (s\<lparr>ran := ran s @ [fn], app := u\<rparr>) fns
      in if throws then Threw s1 else Returned s1)"

text \<open>
  \<open>jobQueue.forEach((fn) => fn())\<close> (line 60). \<open>Set.prototype.forEach\<close> visits the
  members in insertion order and also the members added while it runs; nothing is
  deleted from the queue while it runs, so the visit is by position in the list as it
  is at each step. Nothing catches what a callback throws, so a callback that throws
  ends the loop. A callback can enqueue a new callback every time, so the loop need
  not end: \<open>None\<close> is the loop still running after \<open>fuel\<close> visits.
\<close>

fun jobQueue_forEach ::
  "(nat \<Rightarrow> 'u \<Rightarrow> nat list \<times> 'u \<times> bool) \<Rightarrow> nat \<Rightarrow> nat \<Rightarrow> 'u sched
     \<Rightarrow> 'u sched outcome option" where
  "jobQueue_forEach body 0 i s = None"
| "jobQueue_forEach body (Suc fuel) i s =
     (if i < length (jobQueue s)
      then (case call_job body (jobQueue s ! i) s of
              Returned s1 \<Rightarrow> jobQueue_forEach body fuel (Suc i) s1
            | Threw s1 \<Rightarrow> Some (Threw s1))
      else Some (Returned s))"

text \<open>The \<open>finally\<close> callback (lines 62-69).\<close>

definition flush_finally :: "'u sched \<Rightarrow> 'u sched" where
  "flush_finally s = s\<lparr>isFlushing := False, jobQueue := [], currentFlushPromise := False\<rparr>"

text \<open>
  A microtask: the \<open>then\<close> callback runs the queue, and when it has returned or
  thrown, the \<open>finally\<close> callback is queued; a rejection passes through \<open>finally\<close>
  and is handled nowhere.
\<close>

definition run_microtask ::
  "(nat \<Rightarrow> 'u \<Rightarrow> nat list \<times> 'u \<times> bool) \<Rightarrow> nat \<Rightarrow> 'u sched \<Rightarrow> 'u sched option" where
  "run_microtask body fuel s =
     (case microtasks s of
        [] \<Rightarrow> Some s
      | RunQueue # rest \<Rightarrow>
          (case jobQueue_forEach body fuel 0 (s\<lparr>microtasks := rest\<rparr>) of
             None \<Rightarrow> None
           | Some r \<Rightarrow> Some ((state_of r)\<lparr>microtasks := microtasks (state_of r) @ [Finally]\<rparr>))
      | Finally # rest \<Rightarrow> Some (flush_finally (s\<lparr>microtasks := rest\<rparr>)))"


definition enqueues_first :: "nat \<Rightarrow> unit \<Rightarrow> nat list \<times> unit \<times> bool" where
  "enqueues_first fn u = (if fn = 1 then [0] else [], u, False)"

definition throws_first :: "nat \<Rightarrow> unit \<Rightarrow> nat list \<times> unit \<times> bool" where
  "throws_first fn u = ([], u, fn = 0)"


section \<open>Virtual nodes\<close>

text \<open>
  The type of a node: a tag name, one of the two marker symbols, or a component
  descriptor, known by its identity and carrying its optional list \<open>props\<close> of
  declared names. A node has its type, its props (\<open>null\<close> or the own enumerable
  properties in enumeration order), its children, the shape bits and the key.
\<close>

datatype vtype = Tag string | TextType | FragmentType | Component nat "string list option"

datatype vnode =
  VNode (vn_type: vtype) (vn_props: "(string \<times> jsval) list option")
        (vn_children: vchildren) (shapeFlag: nat) (vn_key: jsval)
and vchildren = ArrayChildren "vnode list" | TextChildren string | NoChildren

text \<open>\<open>ShapeFlags\<close> (lines 117-132).\<close>

definition ELEMENT :: nat where "ELEMENT = 1"
definition TEXT :: nat where "TEXT = 2"
definition FRAGMENT :: nat where "FRAGMENT = 4"
definition COMPONENT :: nat where "COMPONENT = 8"
definition TEXT_CHILDREN :: nat where "TEXT_CHILDREN = 16"
definition ARRAY_CHILDREN :: nat where "ARRAY_CHILDREN = 32"

text \<open>\<open>flags & b\<close> as a condition.\<close>

definition has_flag :: "nat \<Rightarrow> nat \<Rightarrow> bool" where
  "has_flag flags b = (and flags b \<noteq> 0)"

text \<open>\<open>String(n)\<close> for an integer below \<open>10^21\<close> in magnitude, which the host
  writes in decimal digits; from there on it writes an exponent, which is left out.\<close>

fun show_nat :: "nat \<Rightarrow> string" where
  "show_nat n =
     (if n < 10 then [''0123456789'' ! n]
      else show_nat (n div 10) @ [''0123456789'' ! (n mod 10)])"

declare show_nat.simps [simp del]

definition show_int :: "int \<Rightarrow> string" where
  "show_int i = (if i < 0 then ''-'' @ show_nat (nat (- i)) else show_nat (nat i))"

text \<open>The children that \<open>h\<close> accepts.\<close>

datatype h_children = HArray "vnode list" | HString string | HNumber int | HNull

text \<open>\<open>h\<close> (lines 141-182).\<close>

definition h :: "vtype \<Rightarrow> (string \<times> jsval) list option \<Rightarrow> h_children \<Rightarrow> vnode" where
  "h type props children =
     (let shape = (case type of
                     Tag _ \<Rightarrow> ELEMENT
                   | TextType \<Rightarrow> TEXT
                   | FragmentType \<Rightarrow> FRAGMENT
                   | Component _ _ \<Rightarrow> COMPONENT);
          (shape', children') =
            (case children of
               HString str \<Rightarrow> (or shape TEXT_CHILDREN, TextChildren str)
             | HNumber n \<Rightarrow> (or shape TEXT_CHILDREN, TextChildren (show_int n))
             | HArray cs \<Rightarrow> (or shape ARRAY_CHILDREN, ArrayChildren cs)
             | HNull \<Rightarrow> (shape, NoChildren));
          key = (case props of
                   None \<Rightarrow> Null
                 | Some ps \<Rightarrow>
                     (case map_of ps ''key'' of
                        None \<Rightarrow> Null
                      | Some k \<Rightarrow> if k = Null \<or> k = Undefined then Null else k))
      in VNode type props children' shape' key)"

section \<open>patchChildren\<close>

text \<open>
  The calls that \<open>patchChildren\<close> makes, in order, with the values it passes:
  \<open>unmountChildren\<close>, an assignment to \<open>container.textContent\<close>, one of the two diffs,
  \<open>mountChildren\<close>.
\<close>

datatype child_op =
    UnmountChildren "vnode list"
  | SetTextContent vchildren
  | PatchKeyedChildren "vnode list" "vnode list"
  | PatchUnkeyedChildren vchildren vchildren
  | MountChildren vchildren

text \<open>\<open>unmountChildren(children)\<close> starts with \<open>children.forEach\<close>, which throws on
  \<open>null\<close> and on a string.\<close>

definition unmountChildren :: "vchildren \<Rightarrow> error + child_op list" where
  "unmountChildren children =
     (case children of
        ArrayChildren cs \<Rightarrow> Inr [UnmountChildren cs]
      | _ \<Rightarrow> Inl TypeError)"

text \<open>
  \<open>children[0] && children[0].key\<close> as a condition (lines 586-589): the first element
  of an array and then its key must be truthy; a character of a string has no key;
  indexing \<open>null\<close> throws.
\<close>

definition first_child_keyed :: "vchildren \<Rightarrow> error + bool" where
  "first_child_keyed children =
     (case children of
        ArrayChildren [] \<Rightarrow> Inr False
      | ArrayChildren (c # _) \<Rightarrow> Inr (truthy (vn_key c))
      | TextChildren _ \<Rightarrow> Inr False
      | NoChildren \<Rightarrow> Inl TypeError)"

definition array_of :: "vchildren \<Rightarrow> vnode list" where
  "array_of children = (case children of ArrayChildren cs \<Rightarrow> cs | _ \<Rightarrow> [])"

text \<open>\<open>patchChildren\<close> (lines 565-620).\<close>

definition patchChildren :: "vnode \<Rightarrow> vnode \<Rightarrow> error + child_op list" where
  "patchChildren preVnode newVnode =
     (let prevShapeFlag = shapeFlag preVnode; oldChildren = vn_children preVnode;
          newShapFlag = shapeFlag newVnode; newChildren = vn_children newVnode
      in if has_flag newShapFlag TEXT_CHILDREN then
           (case (if has_flag prevShapeFlag ARRAY_CHILDREN then unmountChildren oldChildren
                  else Inr []) of
              Inl err \<Rightarrow> Inl err
            | Inr ops \<Rightarrow>
                Inr (ops @ (if newChildren \<noteq> oldChildren then [SetTextContent newChildren]
                            else [])))
         else if has_flag newShapFlag ARRAY_CHILDREN then
           (if has_flag prevShapeFlag ARRAY_CHILDREN then
              (case first_child_keyed oldChildren of
                 Inl err \<Rightarrow> Inl err
               | Inr oldKeyed \<Rightarrow>
                   if \<not> oldKeyed then Inr [PatchUnkeyedChildren oldChildren newChildren]
                   else
                     (case first_child_keyed newChildren of
                        Inl err \<Rightarrow> Inl err
                      | Inr newKeyed \<Rightarrow>
                          if newKeyed
                          then Inr [PatchKeyedChildren (array_of oldChildren)
                                      (array_of newChildren)]
                          else Inr [PatchUnkeyedChildren oldChildren newChildren]))
            else Inr [SetTextContent (TextChildren []), MountChildren newChildren])
         else
           (case (if has_flag prevShapeFlag ARRAY_CHILDREN then unmountChildren newChildren
                  else Inr []) of
              Inl err \<Rightarrow> Inl err
            | Inr ops \<Rightarrow> Inr (ops @ [SetTextContent (TextChildren [])])))"

section \<open>patchKeyedChildren\<close>

text \<open>
  The calls that the keyed diff makes, with children named by their positions:
  \<open>Patch i k\<close> is \<open>patch(oldChildren[i], newChildren[k], container, anchor)\<close>;
  \<open>Mount k a\<close> is \<open>patch(null, newChildren[k], container, anchor)\<close> with the local
  \<open>anchor\<close>, which is \<open>newChildren[a].el\<close> or \<open>null\<close>; \<open>Unmount i\<close> is
  \<open>unmount(oldChildren[i])\<close>; \<open>Move k a\<close> is
  \<open>container.insertBefore(newChildren[k].el, anchor)\<close>. The calls are taken to return.
\<close>

datatype dom_op =
    Patch nat nat
  | Mount nat "nat option"
  | Unmount nat
  | Move nat "nat option"

text \<open>
  The first loop (lines 680-685) from \<open>j\<close>. \<open>oldNode.key\<close> throws when
  \<open>oldChildren[j]\<close> is \<open>undefined\<close>; \<open>newNode?.key\<close> is \<open>undefined\<close> when
  \<open>newChildren[j]\<close> is, and if the old key is \<open>undefined\<close> too the loop body calls
  \<open>patch\<close> with \<open>undefined\<close> for the new node, which throws on reading its shape.
\<close>

function head_loop ::
  "vnode list \<Rightarrow> vnode list \<Rightarrow> nat \<Rightarrow> dom_op list \<Rightarrow> error + nat \<times> dom_op list" where
  "head_loop oldChildren newChildren j ops =
     (case js_index oldChildren (int j) of
        None \<Rightarrow> Inl TypeError
      | Some oldNode \<Rightarrow>
          (case js_index newChildren (int j) of
             None \<Rightarrow>
               if strict_eq (vn_key oldNode) Undefined then Inl TypeError else Inr (j, ops)
           | Some newNode \<Rightarrow>
               if strict_eq (vn_key oldNode) (vn_key newNode)
               then head_loop oldChildren newChildren (Suc j) (ops @ [Patch j j])
               else Inr (j, ops)))"
  by pat_completeness auto
termination
  by (relation "measure (\<lambda>(oldChildren, newChildren, j, ops). length oldChildren - j)")
     (auto simp: js_index_def split: if_splits)

declare head_loop.simps [simp del]

text \<open>The second loop (lines 687-697); both \<open>oldNode.key\<close> and \<open>newNode.key\<close> throw
  on \<open>undefined\<close>, which is what an index of \<open>-1\<close> reads.\<close>

function tail_loop ::
  "vnode list \<Rightarrow> vnode list \<Rightarrow> int \<Rightarrow> int \<Rightarrow> dom_op list
     \<Rightarrow> error + int \<times> int \<times> dom_op list" where
  "tail_loop oldChildren newChildren oldEnd newEnd ops =
     (case js_index oldChildren oldEnd of
        None \<Rightarrow> Inl TypeError
      | Some oldNode \<Rightarrow>
          (case js_index newChildren newEnd of
             None \<Rightarrow> Inl TypeError
           | Some newNode \<Rightarrow>
               if strict_eq (vn_key oldNode) (vn_key newNode)
               then tail_loop oldChildren newChildren (oldEnd - 1) (newEnd - 1)
                      (ops @ [Patch (nat oldEnd) (nat newEnd)])
               else Inr (oldEnd, newEnd, ops)))"
  by pat_completeness auto
termination
  by (relation "measure (\<lambda>(oldChildren, newChildren, oldEnd, newEnd, ops). nat (oldEnd + 1))")
     (auto simp: js_index_def split: if_splits)

declare tail_loop.simps [simp del]

text \<open>The anchor of lines 701-703 and 763-764: the element of the next child at
  \<open>i\<close>, or \<open>null\<close>.\<close>

definition anchor_at :: "vnode list \<Rightarrow> int \<Rightarrow> nat option" where
  "anchor_at newChildren i = (if i < int (length newChildren) then Some (nat i) else None)"

text \<open>The positions \<open>lo, lo + 1, ..., hi\<close> of a counting loop.\<close>

definition positions :: "int \<Rightarrow> int \<Rightarrow> nat list" where
  "positions lo hi = map nat [lo..hi]"

text \<open>
  The middle part (lines 713-777). \<open>keyIndex\<close> is an object used as a dictionary: a
  key is turned into a property name first, by the host's conversion \<open>propKey\<close>, and a
  later entry for the same name replaces the earlier one. The dictionary is created by
  \<open>{}\<close>, so it inherits the properties of \<open>Object.prototype\<close>: a read of one of
  their names that the dictionary does not own gives a function, or the prototype for
  \<open>__proto__\<close>, and a write to \<open>__proto__\<close> of a number goes to the inherited
  setter, which ignores it. The map is of the own properties. The state of the loop
  over the old children is \<open>(souce, patched, pos, moved, ops)\<close>.
\<close>

definition inherited_names :: "string list" where
  "inherited_names =
     [''constructor'', ''hasOwnProperty'', ''isPrototypeOf'', ''propertyIsEnumerable'',
      ''toLocaleString'', ''toString'', ''valueOf'', ''__proto__'', ''__defineGetter__'',
      ''__defineSetter__'', ''__lookupGetter__'', ''__lookupSetter__'']"

definition build_keyIndex ::
  "(jsval \<Rightarrow> string) \<Rightarrow> vnode list \<Rightarrow> nat list \<Rightarrow> (string \<Rightarrow> nat option)" where
  "build_keyIndex propKey newChildren is =
     foldl (\<lambda>keyIndex i.
              if propKey (vn_key (newChildren ! i)) = ''__proto__'' then keyIndex
              else keyIndex(propKey (vn_key (newChildren ! i)) \<mapsto> i))
       Map.empty is"

text \<open>
  One round of the loop over the old children (lines 728-751). When \<open>k\<close> is an
  inherited value, \<open>newChildren[k]\<close> is \<open>undefined\<close> and \<open>patch\<close> throws on
  reading its shape.
\<close>

definition match_old ::
  "(jsval \<Rightarrow> string) \<Rightarrow> vnode list \<Rightarrow> (string \<Rightarrow> nat option) \<Rightarrow> nat \<Rightarrow> nat
     \<Rightarrow> int list \<times> nat \<times> nat \<times> bool \<times> dom_op list \<Rightarrow> nat
     \<Rightarrow> error + int list \<times> nat \<times> nat \<times> bool \<times> dom_op list" where
  "match_old propKey oldChildren keyIndex j count st i =
     (case st of (souce, patched, pos, moved, ops) \<Rightarrow>
        if patched < count then
          (case keyIndex (propKey (vn_key (oldChildren ! i))) of
             Some k \<Rightarrow>
               Inr (souce[k - j := int i], Suc patched,
                    (if k < pos then pos else k), (if k < pos then True else moved),
                    ops @ [Patch i k])
           | None \<Rightarrow>
               if propKey (vn_key (oldChildren ! i)) \<in> set inherited_names
               then Inl TypeError
               else Inr (souce, patched, pos, moved, ops @ [Unmount i]))
        else Inr (souce, patched, pos, moved, ops @ [Unmount i]))"

text \<open>The loop over the old children, which ends at the first round that throws.\<close>

fun match_loop ::
  "(jsval \<Rightarrow> string) \<Rightarrow> vnode list \<Rightarrow> (string \<Rightarrow> nat option) \<Rightarrow> nat \<Rightarrow> nat
     \<Rightarrow> int list \<times> nat \<times> nat \<times> bool \<times> dom_op list \<Rightarrow> nat list
     \<Rightarrow> error + int list \<times> nat \<times> nat \<times> bool \<times> dom_op list" where
  "match_loop propKey oldChildren keyIndex j count st [] = Inr st"
| "match_loop propKey oldChildren keyIndex j count st (i # is) =
     (case match_old propKey oldChildren keyIndex j count st i of
        Inl err \<Rightarrow> Inl err
      | Inr st1 \<Rightarrow> match_loop propKey oldChildren keyIndex j count st1 is)"

text \<open>The last loop (lines 758-776), for \<open>i + 1\<close> positions still to visit.\<close>

fun place_loop ::
  "vnode list \<Rightarrow> nat \<Rightarrow> int list \<Rightarrow> int list \<Rightarrow> nat \<Rightarrow> int \<Rightarrow> dom_op list \<Rightarrow> dom_op list" where
  "place_loop newChildren j souce seq 0 s ops = ops"
| "place_loop newChildren j souce seq (Suc i) s ops =
     (if souce ! i = - 1 then
        place_loop newChildren j souce seq i s
          (ops @ [Mount (i + j) (anchor_at newChildren (int (i + j) + 1))])
      else if js_index seq s \<noteq> Some (int i) then
        place_loop newChildren j souce seq i s
          (ops @ [Move (i + j) (anchor_at newChildren (int (i + j) + 1))])
      else place_loop newChildren j souce seq i (s - 1) ops)"

definition patch_middle ::
  "(jsval \<Rightarrow> string) \<Rightarrow> vnode list \<Rightarrow> vnode list \<Rightarrow> nat \<Rightarrow> int \<Rightarrow> int \<Rightarrow> dom_op list
     \<Rightarrow> error + dom_op list" where
  "patch_middle propKey oldChildren newChildren j oldEnd newEnd ops =
     (let count = newEnd - int j + 1
      in if count < 0 then Inl RangeError
         else
           (let souce0 = replicate (nat count) (- 1);
                keyIndex = build_keyIndex propKey newChildren (positions (int j) newEnd)
            in case match_loop propKey oldChildren keyIndex j (nat count)
                      (souce0, 0, 0, False, ops) (positions (int j) oldEnd) of
                 Inl err \<Rightarrow> Inl err
               | Inr (souce, patched, pos, moved, ops1) \<Rightarrow>
                   if moved then
                     (let seq = getSequence souce
                      in Inr (place_loop newChildren j souce seq (nat count)
                                (int (length seq) - 1) ops1))
                   else Inr ops1))"

text \<open>\<open>patchKeyedChildren\<close> (lines 667-779).\<close>

definition patchKeyedChildren ::
  "(jsval \<Rightarrow> string) \<Rightarrow> vnode list \<Rightarrow> vnode list \<Rightarrow> error + dom_op list" where
  "patchKeyedChildren propKey oldChildren newChildren =
     (case head_loop oldChildren newChildren 0 [] of
        Inl err \<Rightarrow> Inl err
      | Inr (j, ops1) \<Rightarrow>
          (case tail_loop oldChildren newChildren
                  (int (length oldChildren) - 1) (int (length newChildren) - 1) ops1 of
             Inl err \<Rightarrow> Inl err
           | Inr (oldEnd, newEnd, ops2) \<Rightarrow>
               if int j \<le> newEnd \<and> int j > oldEnd then
                 Inr (ops2 @ map (\<lambda>k. Mount k (anchor_at newChildren (newEnd + 1)))
                                (positions (int j) newEnd))
               else if int j > newEnd \<and> int j \<le> oldEnd then
                 Inr (ops2 @ map Unmount (positions (int j) oldEnd))
               else patch_middle propKey oldChildren newChildren j oldEnd newEnd ops2))"

text \<open>Keyed children for the examples: \<open>li\<close> elements whose keys are the given
  values, and the property name of a string key, which is the string.\<close>

definition keyed :: "jsval list \<Rightarrow> vnode list" where
  "keyed ks = map (\<lambda>k. h (Tag ''li'') (Some [(''key'', k)]) HNull) ks"

fun str_key :: "jsval \<Rightarrow> string" where
  "str_key (Str s) = s"
| "str_key _ = []"


section \<open>Component instances\<close>

text \<open>
  The context of an instance: the auto-unwrapping proxy built at mount, or the plain
  object \<open>{...props, ...setupState}\<close> built on an update.
\<close>

datatype instance_ctx = AutoUnwrapProxy | Merged "string \<Rightarrow> jsval option"

text \<open>
  \<open>Instance\<close> (component, lines 16-25), with \<open>subTree\<close> and \<open>update\<close> left out.
  \<open>props\<close>, \<open>attrs\<close> and \<open>setupState\<close> are plain objects with own data properties.
  \<open>props_reactive\<close> tells whether \<open>instance.props\<close> has been replaced by the reactive
  proxy of that object (line 46); the proxy writes to the same object.
\<close>

record component_instance =
  props :: "string \<Rightarrow> jsval option"
  props_reactive :: bool
  attrs :: "string \<Rightarrow> jsval option"
  setupState :: "string \<Rightarrow> jsval option"
  ctx :: instance_ctx
  isMounted :: bool
  next_vnode :: "vnode option"

text \<open>\<open>Compontent.props\<close> of line 38: the declared names of a component descriptor;
  a tag name or a symbol has no such property.\<close>

definition declared_props :: "vtype \<Rightarrow> string list option" where
  "declared_props t = (case t of Component _ names \<Rightarrow> names | _ \<Rightarrow> None)"

text \<open>
  \<open>instance.props[key] = v\<close> (line 39): a plain write on the plain object and, once
  \<open>instance.props\<close> is the proxy, the \<open>set\<close> trap of \<open>reactive\<close>, which writes and
  calls \<open>trigger\<close> when the value has changed. The target is no array. The
  subscribers work on the state \<open>s\<close>, which does not hold the instance.
\<close>

definition set_prop ::
  "(string \<Rightarrow> 's \<Rightarrow> 's) \<Rightarrow> string \<Rightarrow> jsval \<Rightarrow> component_instance \<times> 's \<Rightarrow> component_instance \<times> 's" where
  "set_prop trigger key v st =
     (let oldVal = (case props (fst st) key of None \<Rightarrow> Undefined | Some x \<Rightarrow> x);
          inst1 = (fst st)\<lparr>props := (props (fst st))(key \<mapsto> v)\<rparr>
      in if props_reactive (fst st) \<and> hasChanged oldVal v
         then (inst1, trigger key (snd st))
         else (inst1, snd st))"

text \<open>\<open>updateProps\<close> (lines 32-47).\<close>

definition updateProps ::
  "(string \<Rightarrow> 's \<Rightarrow> 's) \<Rightarrow> vnode \<Rightarrow> component_instance \<times> 's \<Rightarrow> component_instance \<times> 's" where
  "updateProps trigger vnode st =
     (let st1 = foldl
                  (\<lambda>st' (key, v).
                     if (case declared_props (vn_type vnode) of
                           None \<Rightarrow> False
                         | Some names \<Rightarrow> key \<in> set names)
                     then set_prop trigger key v st'
                     else ((fst st')\<lparr>attrs := (attrs (fst st'))(key \<mapsto> v)\<rparr>, snd st'))
                  st
                  (case vn_props vnode of None \<Rightarrow> [] | Some ps \<Rightarrow> ps)
      in ((fst st1)\<lparr>props_reactive := True\<rparr>, snd st1))"

text \<open>
  The function that \<open>mountComponent\<close> gives to \<open>effect\<close> (lines 103-140), without
  the rendering and patching of the subtree, which read the instance only.
\<close>

definition component_effect ::
  "(string \<Rightarrow> 's \<Rightarrow> 's) \<Rightarrow> component_instance \<times> 's \<Rightarrow> component_instance \<times> 's" where
  "component_effect trigger st =
     (if \<not> isMounted (fst st) then ((fst st)\<lparr>isMounted := True\<rparr>, snd st)
      else
        (case next_vnode (fst st) of
           None \<Rightarrow> st
         | Some vnode \<Rightarrow>
             (let st1 = updateProps trigger vnode ((fst st)\<lparr>next_vnode := None\<rparr>, snd st)
              in ((fst st1)\<lparr>ctx := Merged (props (fst st1) ++ setupState (fst st1))\<rparr>,
                  snd st1))))"

text \<open>\<open>updateComponent\<close> (render, lines 389-396) on the instance that the previous
  node carries: stash the new node and call the instance's \<open>update\<close>.\<close>

definition updateComponent ::
  "(string \<Rightarrow> 's \<Rightarrow> 's) \<Rightarrow> vnode \<Rightarrow> component_instance \<times> 's \<Rightarrow> component_instance \<times> 's" where
  "updateComponent trigger newVnode st =
     component_effect trigger ((fst st)\<lparr>next_vnode := Some newVnode\<rparr>, snd st)"

text \<open>A mounted instance of a component that declares \<open>a\<close> and \<open>b\<close>, for the
  examples: \<open>a\<close> and \<open>b\<close> are props and \<open>id\<close> is an attr.\<close>

definition mounted_instance :: component_instance where
  "mounted_instance =
     \<lparr>props = [''a'' \<mapsto> Num 1, ''b'' \<mapsto> Num 2], props_reactive = True,
      attrs = [''id'' \<mapsto> Str ''x''], setupState = Map.empty, ctx = AutoUnwrapProxy,
      isMounted = True, next_vnode = None\<rparr>"



section \<open>Properties of getSequence\<close>

text \<open>The binary search stays between its bounds, so \<open>result[l] = x\<close> never leaves a
  hole in \<open>result\<close>.\<close>

lemma bsearch_bounds:
  "l \<le> r + 1 \<Longrightarrow> l \<le> bsearch result x l r \<and> bsearch result x l r \<le> r + 1"
proof (induction result x l r rule: bsearch.induct)
  case (1 result x l r)
  show ?case
  proof (cases "l \<le> r")
    case False
    with "1.prems" show ?thesis by (simp add: bsearch.simps [of result x l r])
  next
    case True
    define mid where "mid = trunc_half (l + r)"
    have m: "l \<le> mid" "mid \<le> r" using True by (auto simp: mid_def trunc_half_def)
    show ?thesis
    proof (cases "js_index result mid")
      case None
      with True m show ?thesis
        by (simp add: bsearch.simps [of result x l r] mid_def [symmetric])
    next
      case (Some v)
      consider "x > v" | "\<not> x > v" "x < v" | "\<not> x > v" "\<not> x < v" by blast
      then show ?thesis
      proof cases
        case 1
        have "mid + 1 \<le> bsearch result x (mid + 1) r \<and> bsearch result x (mid + 1) r \<le> r + 1"
          using "1.IH"(1) [OF True mid_def Some 1] m by simp
        with True Some 1 m show ?thesis
          by (simp add: bsearch.simps [of result x l r] mid_def [symmetric])
      next
        case 2
        have "l \<le> bsearch result x l (mid - 1) \<and> bsearch result x l (mid - 1) \<le> mid - 1 + 1"
          using "1.IH"(2) [OF True mid_def Some 2] m by simp
        with True Some 2 m show ?thesis
          by (simp add: bsearch.simps [of result x l r] mid_def [symmetric])
      next
        case 3
        with True Some m show ?thesis
          by (simp add: bsearch.simps [of result x l r] mid_def [symmetric])
      qed
    qed
  qed
qed

text \<open>
  The first loop skips a sentinel without recording anything for it, so \<open>position\<close>
  has one entry per non-sentinel element and the indices that the backward loop writes
  count positions in the list with the sentinels removed.
\<close>

lemma seq_step_sentinel: "seq_step acc (- 1) = acc"
  by (cases acc) simp

lemma foldl_seq_step_filter:
  "foldl seq_step acc (filter (\<lambda>x. x \<noteq> - 1) nums) = foldl seq_step acc nums"
  by (induction nums arbitrary: acc) (simp_all add: seq_step_sentinel del: seq_step.simps)

lemma getSequence_ignores_sentinels:
  "getSequence (filter (\<lambda>x. x \<noteq> - 1) nums) = getSequence nums"
  by (simp add: getSequence_def foldl_seq_step_filter)

text \<open>
  C3 (getSequence returns positions of the input array that form a longest strictly
  increasing subsequence of the non-sentinel values, never a sentinel position).
  On \<open>[-1, 2, 0, 1]\<close>, the \<open>source\<close> array of the keyed diff of the keys
  \<open>a b c\<close> against \<open>x c a b\<close>, the function returns \<open>[1, 2]\<close>: the values at these
  positions are \<open>2\<close> and \<open>0\<close>, which do not increase, where the positions \<open>[2, 3]\<close>
  hold the increasing values \<open>0, 1\<close>. On \<open>[-1, 0, 1]\<close> it returns \<open>[0, 1]\<close>, and
  position \<open>0\<close> holds the sentinel.
\<close>

theorem getSequence_filtered_positions:
  "getSequence [- 1, 2, 0, 1] = [1, 2] \<and>
   map (\<lambda>i. [- 1, 2, 0, 1 :: int] ! nat i) (getSequence [- 1, 2, 0, 1]) = [2, 0] \<and>
   getSequence [- 1, 0, 1] = [0, 1] \<and> [- 1, 0, 1 :: int] ! 0 = - 1"
  by (simp add: getSequence_def js_index_def js_store_def trunc_half_def bsearch.simps)

section \<open>Properties of the dependency graph\<close>

text \<open>\<open>track\<close> writes the graph's set only; the subscriber's own \<open>deps\<close> stay as they
  are, and \<open>effect\<close> created them empty.\<close>

lemma track_effect_deps: "effect_deps (track t k w) = effect_deps w"
  by (simp add: track_def Let_def split: option.splits)

text \<open>With nothing in \<open>deps\<close>, \<open>clean\<close> deletes nothing.\<close>

lemma clean_without_deps: "effect_deps w e = [] \<Longrightarrow> clean e w = w"
  by (simp add: clean_def)

text \<open>
  C1 (before every rerun the subscriber leaves every set it belonged to, \<open>track\<close> records
  the edge in the graph's set and in the subscriber's own list, so after a rerun the
  subscriber is only in the sets of the keys it read during that rerun).
  The subscriber \<open>0\<close> runs \<open>state.ok ? state.a : state.b\<close> on the target \<open>1\<close>, first
  with \<open>ok\<close> true and again with \<open>ok\<close> false. After the first run its \<open>deps\<close> are
  empty although it is in the sets of \<open>ok\<close> and \<open>a\<close>; after the rerun, which read
  \<open>ok\<close> and \<open>b\<close> only, it is still in the set of \<open>a\<close>.
\<close>

theorem stale_dependency_survives_rerun:
  "let fn = (\<lambda>w. (Undefined,
                 let w1 = track 1 (Name ''ok'') w
                 in if user w then track 1 (Name ''a'') w1 else track 1 (Name ''b'') w1));
       w1 = effect 0 fn False (empty_world True);
       w2 = snd (effectFn 0 fn (w1\<lparr>user := False\<rparr>))
   in subscribers w1 1 (Name ''a'') = [0] \<and> subscribers w1 1 (Name ''b'') = [] \<and>
      effect_deps w1 0 = [] \<and>
      subscribers w2 1 (Name ''a'') = [0] \<and> subscribers w2 1 (Name ''b'') = [0] \<and>
      effect_deps w2 0 = []"
  by (simp add: Let_def effect_def effectFn_def clean_def track_def empty_world_def
      subscribers_def set_add_def)

section \<open>Properties of the write paths\<close>

lemma hasChanged_iff: "hasChanged a b = (a \<noteq> b \<and> a \<noteq> NaN \<and> b \<noteq> NaN)"
  by (auto simp: hasChanged_def strict_eq_def)

text \<open>
  C7 (a write of a value for which the changed predicate is false never calls
  \<open>trigger\<close>). When \<open>hasChanged\<close> is false for the stored and the new value, the
  \<open>set\<close> trap returns what \<open>Reflect.set\<close> returned and the state is the written target
  with the rest untouched, and the setter of a boxed reference leaves the state as it
  was: whatever \<open>trigger\<close> is, it is not applied. A value is never changed against
  itself, \<open>NaN\<close> included. The trap tests the length of an array inside the same
  \<open>if\<close>, so this also holds for a write that moves the length.
\<close>

theorem unchanged_write_never_triggers:
  "(\<not> hasChanged (Reflect_get R obj key) newVal \<longrightarrow>
      proxy_set R trigger key newVal (obj, s) =
        (case Reflect_set R obj key newVal of
           Inl err \<Rightarrow> Inl err
         | Inr (res, obj1) \<Rightarrow> Inr (res, obj1, s))) \<and>
   (\<not> hasChanged (ref_value r) v \<longrightarrow> ref_set trigger' v (r, s') = (r, s')) \<and>
   \<not> hasChanged x x"
  by (auto simp: proxy_set_def ref_set_def Let_def hasChanged_def strict_eq_def
      split: sum.splits)

text \<open>
  The array \<open>[1]\<close> with \<open>undefined\<close> written at index \<open>5\<close>: the stored value was
  \<open>undefined\<close> already, the length goes from \<open>1\<close> to \<open>6\<close>, and the counting
  \<open>trigger\<close> has not run. A boxed \<open>NaN\<close> written with \<open>NaN\<close> stays as it is.
\<close>

theorem unchanged_write_never_triggers_witness:
  "\<not> hasChanged (Reflect_get own_reflect (js_array [Num 1]) (Idx 5)) Undefined \<and>
   (case proxy_set own_reflect (\<lambda>k st. (fst st, Suc (snd st))) (Idx 5) Undefined
           (js_array [Num 1], 0 :: nat) of
      Inl err \<Rightarrow> False
    | Inr (res, obj1, n) \<Rightarrow> res \<and> own_get obj1 (Name ''length'') = Num 6 \<and> n = 0) \<and>
   \<not> hasChanged (ref_value \<lparr>ref_value = NaN\<rparr>) NaN \<and>
   ref_set (\<lambda>k st. (fst st, Suc (snd st))) NaN (\<lparr>ref_value = NaN\<rparr>, 0 :: nat)
     = (\<lparr>ref_value = NaN\<rparr>, 0)"
  using unchanged_write_never_triggers
    [of own_reflect "js_array [Num 1]" "Idx 5" Undefined "\<lambda>k st. (fst st, Suc (snd st))"
        "0 :: nat" "\<lparr>ref_value = NaN\<rparr>" NaN "\<lambda>k st. (fst st, Suc (snd st))" "0 :: nat"]
  by (simp add: hasChanged_def strict_eq_def own_reflect_def own_get_def js_array_def
      own_set_def array_length_def)

text \<open>A changed value at an index past the end fires both triggers, in this order.\<close>

lemma changed_write_past_end_triggers_twice:
  "proxy_set own_reflect (\<lambda>k st. (fst st, snd st @ [k])) (Idx 2) (Num 7) (js_array [Num 1], [])
     = Inr (True, obj1, ks) \<Longrightarrow> ks = [Idx 2, Name ''length'']"
  by (auto simp: proxy_set_def Let_def hasChanged_def strict_eq_def own_reflect_def
      own_get_def js_array_def own_set_def array_length_def)

section \<open>Properties of derived values\<close>


lemma computed_get_dirty:
  "dirty c \<Longrightarrow> computed_get g (c, w) =
     (fst (effectFn (c_effect c) g w),
      c\<lparr>c_value := fst (effectFn (c_effect c) g w), dirty := False,
        getter_runs := Suc (getter_runs c)\<rparr>,
      track (c_self c) (Name ''value'') (snd (effectFn (c_effect c) g w)))"
  by (simp add: computed_get_def computed_effect_def Let_def split_beta)













text \<open>The definitions that evaluate the dependency graph on a concrete world.\<close>

lemmas world_eval = effect_def effectFn_def clean_def track_def empty_world_def
  subscribers_def set_add_def


text \<open>A new derived value is dirty, so its first read runs the getter once.\<close>

lemma computed_first_read:
  "getter_runs (fst (snd (computed_get g (computed_new e self g w)))) = 1"
  by (simp add: computed_new_def computed_get_dirty)

section \<open>Properties of the watchers\<close>

text \<open>In watch.ts the old value taken at subscription time is the getter function,
  whatever the getter would return.\<close>

lemma watch_old_value_general:
  "w_oldVal (fst (watch A False e w)) = Closure (app_getter_id A)"
  by (simp add: watch_def watch_body_def new_watcher_def effectFn_def Let_def)

text \<open>In the other \<open>watch\<close> it is the value that the getter returns when the
  subscriber runs it at subscription time.\<close>

lemma watch_repaired_old_value:
  "w_oldVal (fst (watch_repaired A False e w))
     = fst (effectFn e (app_getter A) (effect e (app_getter A) True w))"
  by (simp add: watch_repaired_def Let_def split_beta new_watcher_def
      watch_repaired_body_def [abs_def])

lemma watch_repaired_example:
  "w_oldVal (fst (watch_repaired counter_app False 0 (empty_world 1))) = Num 1 \<and>
   subscribers (snd (watch_repaired counter_app False 0 (empty_world 1))) 1 (Name ''count'') = [0] \<and>
   calls (fst (job counter_app (watch_repaired_body counter_app)
            (fst (watch_repaired counter_app False 0 (empty_world 1)),
             (snd (watch_repaired counter_app False 0 (empty_world 1)))\<lparr>user := 2\<rparr>)))
     = [CallbackCalled (Num 1) (Num 2)]"
  by (simp add: watch_repaired_def watch_repaired_body_def job_def new_watcher_def counter_app_def
      onInvalidate_def Let_def world_eval)

text \<open>
  C6 (\<open>watch\<close> without \<open>immediate\<close> evaluates the getter once at subscription time and
  stores the result as the old value, which the first call of the callback receives).
  \<open>watch(() => state.count, cb)\<close> of watch.ts with \<open>state.count = 1\<close>: the old value
  stored at subscription time is the getter function and not \<open>1\<close>; the getter has not
  run, so the subscriber is in no set of the graph; and when \<open>job\<close> runs after
  \<open>state.count = 2\<close>, the callback receives the getter function as old and as new
  value.
\<close>

theorem watch_old_value_is_the_getter:
  "w_oldVal (fst (watch counter_app False 0 (empty_world 1))) = Closure 7 \<and>
   subscribers (snd (watch counter_app False 0 (empty_world 1))) 1 (Name ''count'') = [] \<and>
   calls (fst (job counter_app (watch_body counter_app)
            (fst (watch counter_app False 0 (empty_world 1)),
             (snd (watch counter_app False 0 (empty_world 1)))\<lparr>user := 2\<rparr>)))
     = [CallbackCalled (Closure 7) (Closure 7)]"
  by (simp add: watch_def watch_body_def job_def new_watcher_def counter_app_def
      onInvalidate_def Let_def world_eval)

lemma onInvalidate_last: "onInvalidate c fns = (if fns = [] then c else Some (last fns))"
  by (induction fns arbitrary: c) (auto simp: onInvalidate_def)

text \<open>
  C8 as the claim states it (a registered cleanup is invoked exactly once, and never
  again unless registered again) fails. \<open>watchEffect\<close> runs a callback that reads
  \<open>state.count\<close> and registers the function \<open>5\<close> on its first call only. The
  subscriber is then in the set of \<open>count\<close>, so every write to \<open>state.count\<close> calls
  its scheduler, which is \<open>job\<close>. After two such runs the function \<open>5\<close> has been
  invoked before the second call of the callback and again before the third.
\<close>

theorem watchEffect_cleanup_invoked_again:
  "subscribers (snd (watchEffect registering_cb 0 (empty_world 0))) 1 (Name ''count'') = [0] \<and>
   calls (fst (watchEffect_job registering_cb (\<lambda>fn w. w)
          (watchEffect_job registering_cb (\<lambda>fn w. w)
            (watchEffect registering_cb 0 (empty_world 0)))))
     = [EffectCallbackCalled, CleanupCalled 5, EffectCallbackCalled,
        CleanupCalled 5, EffectCallbackCalled]"
  by (simp add: watchEffect_def watchEffect_job_def watchEffect_cb_def new_watcher_def
      registering_cb_def onInvalidate_def Let_def world_eval)

text \<open>The same with the \<open>watch\<close> whose getter is called: the watcher is in the set of
  \<open>count\<close>, and three runs of \<open>job\<close> invoke \<open>5\<close> twice.\<close>

lemma watch_repaired_cleanup_invoked_again:
  "subscribers (snd (watch_repaired registering_app False 0 (empty_world 0))) 1 (Name ''count'')
     = [0] \<and>
   calls (fst (job registering_app (watch_repaired_body registering_app)
          (job registering_app (watch_repaired_body registering_app)
            (job registering_app (watch_repaired_body registering_app)
              (watch_repaired registering_app False 0 (empty_world 0))))))
     = [CallbackCalled (Num 0) (Num 0), CleanupCalled 5,
        CallbackCalled (Num 0) (Num 0), CleanupCalled 5,
        CallbackCalled (Num 0) (Num 0)]"
  by (simp add: watch_repaired_def watch_repaired_body_def job_def new_watcher_def
      registering_app_def onInvalidate_def Let_def world_eval)

text \<open>
  C8, amended. One run of \<open>job\<close>, of \<open>watch\<close> and of \<open>watchEffect\<close> alike, invokes
  the cleanup that is registered at that moment, if there is one, once and immediately
  before the callback. Afterwards the registered cleanup is the last function that
  this call of the callback passed to \<open>onInvalidate\<close>, and the one registered before
  if it passed none: a later registration supersedes the earlier one, one cleanup at
  most is kept, and it stays registered after it has been invoked.
\<close>

theorem cleanup_retained_until_superseded:
  "calls (fst (job A body (ws, w)))
     = calls ws @ (case w_cleanUp ws of None \<Rightarrow> [] | Some fn \<Rightarrow> [CleanupCalled fn])
         @ [CallbackCalled (w_oldVal ws) (fst (effectFn (w_effect ws) body w))] \<and>
   w_cleanUp (fst (job A body (ws, w)))
     = (let (nv, w1) = effectFn (w_effect ws) body w;
            w2 = (case w_cleanUp ws of None \<Rightarrow> w1 | Some fn \<Rightarrow> app_cleanup A fn w1);
            fns = fst (app_cb A (w_oldVal ws) nv w2)
        in if fns = [] then w_cleanUp ws else Some (last fns)) \<and>
   calls (fst (watchEffect_job ecb run (ws, w)))
     = calls ws @ (case w_cleanUp ws of None \<Rightarrow> [] | Some fn \<Rightarrow> [CleanupCalled fn])
         @ [EffectCallbackCalled] \<and>
   w_cleanUp (fst (watchEffect_job ecb run (ws, w)))
     = (let fns = fst (ecb (case w_cleanUp ws of None \<Rightarrow> w | Some fn \<Rightarrow> run fn w))
        in if fns = [] then w_cleanUp ws else Some (last fns))"
  by (auto simp: job_def watchEffect_job_def watchEffect_cb_def Let_def split_beta
      onInvalidate_last split: option.splits)

section \<open>Properties of the job scheduler\<close>

text \<open>What \<open>queueJob\<close> and the call of a callback do to the queue and to the records.\<close>

lemma queueJob_ran [simp]: "ran (queueJob fn s) = ran s"
  by (simp add: queueJob_def flushJob_def)




lemma set_add_member: "x \<in> set (set_add x xs)"
  by (simp add: set_add_def)



















text \<open>The definitions that the examples evaluate.\<close>

lemmas sched_eval = queueJob_def flushJob_def new_sched_def call_job_def set_add_def
  run_microtask_def flush_finally_def


text \<open>A callback that has run and is enqueued again during the same flush is already
  a member of the set: it is neither run again nor kept for a later flush.\<close>

lemma enqueued_again_is_dropped:
  "(case run_microtask enqueues_first 3 (queueJob 1 (queueJob 0 (new_sched ()))) of
      None \<Rightarrow> False
    | Some s1 \<Rightarrow>
        ran s1 = [0, 1] \<and> requested s1 = [0, 1, 0] \<and>
        (case run_microtask enqueues_first 3 s1 of
           None \<Rightarrow> False
         | Some s2 \<Rightarrow> ran s2 = [0, 1] \<and> jobQueue s2 = [] \<and> microtasks s2 = []))"
  by (simp add: sched_eval enqueues_first_def eval_nat_numeral)

text \<open>
  A callback that throws: \<open>0\<close> and \<open>1\<close> are queued and \<open>0\<close> throws. The flush has
  run \<open>0\<close> only; its \<open>finally\<close> step empties the queue and leaves no microtask, so
  \<open>1\<close> is never run.
\<close>

lemma throwing_callback_drops_the_rest:
  "(case run_microtask throws_first 3 (queueJob 1 (queueJob 0 (new_sched ()))) of
      None \<Rightarrow> False
    | Some s1 \<Rightarrow>
        ran s1 = [0] \<and> jobQueue s1 = [0, 1] \<and> microtasks s1 = [Finally] \<and>
        (case run_microtask throws_first 3 s1 of
           None \<Rightarrow> False
         | Some s2 \<Rightarrow> ran s2 = [0] \<and> jobQueue s2 = [] \<and> microtasks s2 = []
                       \<and> \<not> isFlushing s2))"
  by (simp add: sched_eval throws_first_def eval_nat_numeral)


section \<open>Properties of the children diff\<close>

lemmas vnode_eval = keyed_def h_def ELEMENT_def TEXT_def FRAGMENT_def COMPONENT_def
  TEXT_CHILDREN_def ARRAY_CHILDREN_def has_flag_def

lemmas keyed_eval = patchKeyedChildren_def head_loop.simps tail_loop.simps js_index_def
  strict_eq_def anchor_at_def positions_def patch_middle_def build_keyIndex_def
  match_old_def inherited_names_def upto.simps

text \<open>With array children on both sides and a first child on each, the keyed diff is
  chosen exactly when both first keys are truthy.\<close>

lemma patchChildren_keyed_iff:
  assumes "\<not> has_flag (shapeFlag n) TEXT_CHILDREN"
    and "has_flag (shapeFlag n) ARRAY_CHILDREN" and "has_flag (shapeFlag p) ARRAY_CHILDREN"
    and "vn_children p = ArrayChildren (a # as)" and "vn_children n = ArrayChildren (b # bs)"
  shows "patchChildren p n =
           Inr [if truthy (vn_key a) \<and> truthy (vn_key b)
                then PatchKeyedChildren (a # as) (b # bs)
                else PatchUnkeyedChildren (vn_children p) (vn_children n)]"
  using assms by (auto simp: patchChildren_def first_child_keyed_def array_of_def Let_def)

text \<open>
  C9 (the keyed diff is selected if and only if both first children carry a non-null
  key; a first key \<open>0\<close> or \<open>''\<close> selects the keyed diff).
  \<open>h\<close> keeps the keys \<open>0\<close> and the empty string, which are not \<open>null\<close>, and for
  children whose first key is \<open>0\<close>, or the empty string, \<open>patchChildren\<close> calls the
  unkeyed diff.
\<close>

theorem falsy_key_selects_unkeyed_diff:
  "vn_key (hd (keyed [Num 0])) = Num 0 \<and>
   patchChildren (h (Tag ''ul'') None (HArray (keyed [Num 0, Num 1])))
                 (h (Tag ''ul'') None (HArray (keyed [Num 1, Num 0])))
     = Inr [PatchUnkeyedChildren (ArrayChildren (keyed [Num 0, Num 1]))
                                 (ArrayChildren (keyed [Num 1, Num 0]))] \<and>
   vn_key (hd (keyed [Str ''''])) = Str '''' \<and>
   patchChildren (h (Tag ''ul'') None (HArray (keyed [Str '''', Str ''a''])))
                 (h (Tag ''ul'') None (HArray (keyed [Str '''', Str ''a''])))
     = Inr [PatchUnkeyedChildren (ArrayChildren (keyed [Str '''', Str ''a'']))
                                 (ArrayChildren (keyed [Str '''', Str ''a'']))]"
  by (simp add: patchChildren_def first_child_keyed_def array_of_def Let_def vnode_eval)

text \<open>Only the first child counts: with first keys \<open>1\<close> and \<open>a\<close> the keyed diff
  is called.\<close>

lemma truthy_keys_select_keyed_diff:
  "patchChildren (h (Tag ''ul'') None (HArray (keyed [Num 1, Num 0])))
                 (h (Tag ''ul'') None (HArray (keyed [Str ''a''])))
     = Inr [PatchKeyedChildren (keyed [Num 1, Num 0]) (keyed [Str ''a''])]"
  by (simp add: patchChildren_def first_child_keyed_def array_of_def Let_def vnode_eval)

text \<open>
  When every previous child from \<open>j\<close> on has the key of the next child at its
  position, the first loop reaches \<open>oldChildren[oldChildren.length]\<close> and throws.
\<close>

lemma head_loop_runs_off_the_end:
  "j \<le> length old \<Longrightarrow>
   \<forall>i. j \<le> i \<and> i < length old \<longrightarrow>
         i < length new \<and> strict_eq (vn_key (old ! i)) (vn_key (new ! i)) \<Longrightarrow>
   head_loop old new j ops = Inl TypeError"
proof (induction "length old - j" arbitrary: j ops)
  case 0
  then have "j = length old" by simp
  then show ?case by (subst head_loop.simps) (simp add: js_index_def)
next
  case (Suc d)
  then have lt: "j < length old" by simp
  with Suc.prems(2) have m: "j < length new" "strict_eq (vn_key (old ! j)) (vn_key (new ! j))"
    by auto
  have "head_loop old new (Suc j) (ops @ [Patch j j]) = Inl TypeError"
    using Suc.hyps(1) [of "Suc j"] Suc.hyps(2) Suc.prems(2) lt by simp
  with lt m show ?case by (subst head_loop.simps) (simp add: js_index_def)
qed

text \<open>So the keyed diff throws whenever the previous keys are a prefix of the next
  keys, the same list included.\<close>

lemma matching_prefix_throws:
  "\<forall>i < length old. i < length new \<and> strict_eq (vn_key (old ! i)) (vn_key (new ! i)) \<Longrightarrow>
   patchKeyedChildren propKey old new = Inl TypeError"
  using head_loop_runs_off_the_end [of 0 old new "[]"]
  by (simp add: patchKeyedChildren_def)

text \<open>
  C2 (after the two matching phases the remaining next nodes are mounted, or the
  remaining previous nodes unmounted, and the diff completes without reading a child
  outside either list, for instance when one list of keys is a strict prefix of the
  other). With previous keys \<open>a\<close> and next keys \<open>a b\<close> the first loop reads
  \<open>oldChildren[1]\<close>, which is \<open>undefined\<close>, and throws on its \<open>key\<close>. The second
  loop does the same at index \<open>-1\<close> for \<open>b\<close> against \<open>a b\<close> and for \<open>a b\<close> against
  \<open>b\<close>. Two equal lists throw as well. Of these, only \<open>a b\<close> against \<open>a\<close> completes:
  the guard \<open>newNode?.key\<close> ends the first loop and \<open>b\<close> is unmounted.
\<close>

theorem keyed_diff_of_a_prefix_throws:
  "patchKeyedChildren str_key (keyed [Str ''a'']) (keyed [Str ''a'', Str ''b''])
     = Inl TypeError \<and>
   patchKeyedChildren str_key (keyed [Str ''b'']) (keyed [Str ''a'', Str ''b''])
     = Inl TypeError \<and>
   patchKeyedChildren str_key (keyed [Str ''a'', Str ''b'']) (keyed [Str ''b''])
     = Inl TypeError \<and>
   patchKeyedChildren str_key (keyed [Str ''a'', Str ''b'']) (keyed [Str ''a'', Str ''b''])
     = Inl TypeError \<and>
   patchKeyedChildren str_key (keyed [Str ''a'', Str ''b'']) (keyed [Str ''a''])
     = Inr [Patch 0 0, Unmount 1]"
  by (simp add: keyed_eval vnode_eval)

text \<open>The mounting branch is reached when the second loop stops on a mismatch below
  \<open>j\<close>: \<open>a b\<close> against \<open>a c b\<close> mounts \<open>c\<close> before the element of \<open>b\<close>.\<close>

lemma keyed_diff_mounts_remainder:
  "patchKeyedChildren str_key (keyed [Str ''a'', Str ''b''])
       (keyed [Str ''a'', Str ''c'', Str ''b''])
     = Inr [Patch 0 0, Patch 1 2, Mount 1 (Some 2)]"
  by (simp add: keyed_eval vnode_eval)

text \<open>
  \<open>a b c\<close> against \<open>x c a b\<close>: the middle part builds the array \<open>[-1, 2, 0, 1]\<close>
  and, with the result \<open>[1, 2]\<close> of \<open>getSequence\<close>, leaves \<open>c\<close> and \<open>a\<close> in place,
  moves \<open>b\<close> to the end and mounts \<open>x\<close> before \<open>c\<close>.
\<close>

lemma keyed_diff_source_with_sentinel:
  "patchKeyedChildren str_key (keyed [Str ''a'', Str ''b'', Str ''c''])
       (keyed [Str ''x'', Str ''c'', Str ''a'', Str ''b''])
     = Inr [Patch 0 2, Patch 1 3, Patch 2 1, Move 3 None, Mount 0 (Some 1)]"
  by code_simp

text \<open>
  \<open>toString a\<close> against \<open>a b\<close>: the dictionary owns \<open>a\<close> and \<open>b\<close>; the read of
  \<open>toString\<close> gives the inherited function, and \<open>patch\<close> is called with
  \<open>undefined\<close> for the next node.
\<close>

lemma keyed_diff_inherited_name_throws:
  "patchKeyedChildren str_key (keyed [Str ''toString'', Str ''a''])
       (keyed [Str ''a'', Str ''b''])
     = Inl TypeError"
  by code_simp

section \<open>Properties of the component update\<close>

text \<open>A write to a prop changes that key of \<open>props\<close> and nothing of \<open>attrs\<close>.\<close>

lemma set_prop_frame:
  "props (fst (set_prop trigger key v st)) = (props (fst st))(key \<mapsto> v) \<and>
   attrs (fst (set_prop trigger key v st)) = attrs (fst st)"
  by (simp add: set_prop_def Let_def)

text \<open>The loop of \<open>updateProps\<close> leaves every key that it does not visit as it was,
  and removes no key.\<close>

lemma assign_loop_frame:
  "(\<forall>key. key \<notin> fst ` set ps \<longrightarrow>
       props (fst (foldl (\<lambda>st' (key, v). if P key then set_prop trigger key v st'
            else ((fst st')\<lparr>attrs := (attrs (fst st'))(key \<mapsto> v)\<rparr>, snd st')) st ps)) key
         = props (fst st) key \<and>
       attrs (fst (foldl (\<lambda>st' (key, v). if P key then set_prop trigger key v st'
            else ((fst st')\<lparr>attrs := (attrs (fst st'))(key \<mapsto> v)\<rparr>, snd st')) st ps)) key
         = attrs (fst st) key) \<and>
   dom (props (fst st)) \<subseteq> dom (props (fst (foldl (\<lambda>st' (key, v). if P key then set_prop trigger key v st'
            else ((fst st')\<lparr>attrs := (attrs (fst st'))(key \<mapsto> v)\<rparr>, snd st')) st ps))) \<and>
   dom (attrs (fst st)) \<subseteq> dom (attrs (fst (foldl (\<lambda>st' (key, v). if P key then set_prop trigger key v st'
            else ((fst st')\<lparr>attrs := (attrs (fst st'))(key \<mapsto> v)\<rparr>, snd st')) st ps)))"
proof (induction ps arbitrary: st)
  case Nil
  then show ?case by simp
next
  case (Cons kv ps)
  obtain k v where kv: "kv = (k, v)" by (cases kv)
  let ?st1 = "if P k then set_prop trigger k v st
              else ((fst st)\<lparr>attrs := (attrs (fst st))(k \<mapsto> v)\<rparr>, snd st)"
  have p1: "\<And>key. key \<noteq> k \<Longrightarrow> props (fst ?st1) key = props (fst st) key"
    by (simp add: set_prop_frame)
  have a1: "\<And>key. key \<noteq> k \<Longrightarrow> attrs (fst ?st1) key = attrs (fst st) key"
    by (simp add: set_prop_frame)
  have d1: "dom (props (fst st)) \<subseteq> dom (props (fst ?st1))"
    by (auto simp: set_prop_frame)
  have d2: "dom (attrs (fst st)) \<subseteq> dom (attrs (fst ?st1))"
    by (auto simp: set_prop_frame)
  from Cons.IH [of ?st1] p1 a1 d1 d2 show ?case
    unfolding kv by (simp add: subset_iff)
qed

text \<open>
  C10 (across a component update, \<open>updateProps\<close> only adds or overwrites entries).
  After \<open>updateComponent\<close>, every key that is not a key of the new node's props has in
  \<open>instance.props\<close> and in \<open>instance.attrs\<close> the value it had before, and every key
  that was present in either is still present.
\<close>

theorem updateProps_keeps_absent_keys:
  "(\<forall>key. key \<notin> fst ` set (case vn_props newVnode of None \<Rightarrow> [] | Some ps \<Rightarrow> ps) \<longrightarrow>
      props (fst (updateComponent trigger newVnode (inst, s))) key = props inst key \<and>
      attrs (fst (updateComponent trigger newVnode (inst, s))) key = attrs inst key) \<and>
   dom (props inst) \<subseteq> dom (props (fst (updateComponent trigger newVnode (inst, s)))) \<and>
   dom (attrs inst) \<subseteq> dom (attrs (fst (updateComponent trigger newVnode (inst, s))))"
proof (cases "isMounted inst")
  case False
  then show ?thesis by (simp add: updateComponent_def component_effect_def)
next
  case True
  let ?P = "\<lambda>key. case declared_props (vn_type newVnode) of
                      None \<Rightarrow> False | Some names \<Rightarrow> key \<in> set names"
  let ?ps = "case vn_props newVnode of None \<Rightarrow> [] | Some ps \<Rightarrow> ps"
  let ?st0 = "(inst\<lparr>next_vnode := None\<rparr>, s)"
  let ?st1 = "foldl (\<lambda>st' (key, v). if ?P key then set_prop trigger key v st'
            else ((fst st')\<lparr>attrs := (attrs (fst st'))(key \<mapsto> v)\<rparr>, snd st')) ?st0 ?ps"
  have p: "props (fst (updateComponent trigger newVnode (inst, s))) = props (fst ?st1)"
    and a: "attrs (fst (updateComponent trigger newVnode (inst, s))) = attrs (fst ?st1)"
    using True by (simp_all add: updateComponent_def component_effect_def updateProps_def Let_def)
  show ?thesis
    unfolding p a using assign_loop_frame [of ?ps ?P trigger ?st0] by simp
qed

text \<open>A component that declares \<open>a\<close> and \<open>b\<close>, mounted with \<open>a = 1\<close>, \<open>b = 2\<close> and
  the attr \<open>id\<close>, updated with a node that passes \<open>a = 5\<close> and \<open>title\<close>: \<open>b\<close> and
  \<open>id\<close> stay, \<open>a\<close> is overwritten and \<open>title\<close> is added.\<close>

theorem updateProps_keeps_absent_keys_witness:
  "''b'' \<notin> fst ` set (case vn_props (h (Component 3 (Some [''a'', ''b''])) (Some [(''a'', Num 5), (''title'', Str ''t'')]) HNull)
                        of None \<Rightarrow> [] | Some ps \<Rightarrow> ps) \<and>
   props (fst (updateComponent (\<lambda>key n. Suc n)
      (h (Component 3 (Some [''a'', ''b''])) (Some [(''a'', Num 5), (''title'', Str ''t'')]) HNull)
      (mounted_instance, 0 :: nat))) ''b'' = Some (Num 2) \<and>
   props (fst (updateComponent (\<lambda>key n. Suc n)
      (h (Component 3 (Some [''a'', ''b''])) (Some [(''a'', Num 5), (''title'', Str ''t'')]) HNull)
      (mounted_instance, 0 :: nat))) ''a'' = Some (Num 5) \<and>
   attrs (fst (updateComponent (\<lambda>key n. Suc n)
      (h (Component 3 (Some [''a'', ''b''])) (Some [(''a'', Num 5), (''title'', Str ''t'')]) HNull)
      (mounted_instance, 0 :: nat))) ''id'' = Some (Str ''x'') \<and>
   attrs (fst (updateComponent (\<lambda>key n. Suc n)
      (h (Component 3 (Some [''a'', ''b''])) (Some [(''a'', Num 5), (''title'', Str ''t'')]) HNull)
      (mounted_instance, 0 :: nat))) ''title'' = Some (Str ''t'')"
  using updateProps_keeps_absent_keys
    [of "h (Component 3 (Some [''a'', ''b''])) (Some [(''a'', Num 5), (''title'', Str ''t'')]) HNull"
        "\<lambda>key n. Suc n" mounted_instance "0 :: nat"]
  by (simp add: updateComponent_def component_effect_def updateProps_def set_prop_def
      declared_props_def mounted_instance_def h_def Let_def)

end
